theory Spec2Isabelle
  imports Main "HOL-Library.Word" "HOL-Library.Multiset"
begin

section \<open>The info-section navigation controller (info/info_controller.cpp)\<close>

text \<open>
  A shallow embedding of \<^verbatim>\<open>Info::Key\<close>, \<^verbatim>\<open>Info::AbstractController\<close> and
  \<^verbatim>\<open>Info::Controller\<close>. Objects owned by the session (peers, users, polls, history
  items, widgets) are referred to by address. A \<^verbatim>\<open>not_null<T*>\<close> is an address, a plain
  \<^verbatim>\<open>T*\<close> is an optional address with \<open>None\<close> for \<^verbatim>\<open>nullptr\<close>. A failed
  \<^verbatim>\<open>Expects\<close> or \<^verbatim>\<open>Assert\<close> and the dereference of an empty
  \<^verbatim>\<open>std::unique_ptr\<close> end the operation; they are the \<open>Inl\<close> results of the model.
\<close>

subsection \<open>Identifiers and references\<close>

type_synonym PeerId = "64 word"
type_synonym MsgId = int
type_synonym PeerPtr = nat
type_synonym UserPtr = nat
type_synonym PollPtr = nat
type_synonym ItemPtr = nat
type_synonym WidgetPtr = nat
type_synonym WindowPtr = nat

record FullMsgId =
  peer :: PeerId
  msg :: MsgId

text \<open>The default-constructed \<^verbatim>\<open>FullMsgId()\<close>.\<close>

definition FullMsgId_default :: FullMsgId where
  "FullMsgId_default = \<lparr>peer = 0, msg = 0\<rparr>"

datatype error = ExpectsFailed | AssertFailed | NullDereference

subsection \<open>Info::Key\<close>

text \<open>
  Modelled from the spec: the declarations of \<^verbatim>\<open>Settings::Tag\<close>, \<^verbatim>\<open>Downloads::Tag\<close>
  and \<^verbatim>\<open>Key::PollKey\<close> are in info_controller.h, which is not among the sources. The
  data model gives \<open>SettingsTag(selfUserRef)\<close>, a marker without content for downloads,
  and \<open>Poll(pollRef, originatingMessageId)\<close>; the references are never null.
\<close>

record Settings_Tag =
  self :: UserPtr

record PollKey =
  poll :: PollPtr
  contextId :: FullMsgId

text \<open>
  The member \<^verbatim>\<open>_value\<close> is a \<^verbatim>\<open>std::variant\<close> over the four alternatives; the four
  constructors of \<^verbatim>\<open>Key\<close> store one alternative each.
\<close>

datatype Key =
    Key_Peer PeerPtr
  | Key_Settings Settings_Tag
  | Key_Downloads
  | Key_Poll PollKey

definition Key_from_peer :: "PeerPtr \<Rightarrow> Key" where
  "Key_from_peer p = Key_Peer p"

definition Key_from_settings :: "Settings_Tag \<Rightarrow> Key" where
  "Key_from_settings settings = Key_Settings settings"

definition Key_from_downloads :: Key where
  "Key_from_downloads = Key_Downloads"

definition Key_from_poll :: "PollPtr \<Rightarrow> FullMsgId \<Rightarrow> Key" where
  "Key_from_poll p ctx = Key_Poll \<lparr>poll = p, contextId = ctx\<rparr>"

fun Key_peer :: "Key \<Rightarrow> PeerPtr option" where
  "Key_peer (Key_Peer p) = Some p"
| "Key_peer _ = None"

fun Key_settingsSelf :: "Key \<Rightarrow> UserPtr option" where
  "Key_settingsSelf (Key_Settings tag) = Some (self tag)"
| "Key_settingsSelf _ = None"

fun Key_isDownloads :: "Key \<Rightarrow> bool" where
  "Key_isDownloads Key_Downloads = True"
| "Key_isDownloads _ = False"

fun Key_poll :: "Key \<Rightarrow> PollPtr option" where
  "Key_poll (Key_Poll data) = Some (poll data)"
| "Key_poll _ = None"

fun Key_pollContextId :: "Key \<Rightarrow> FullMsgId" where
  "Key_pollContextId (Key_Poll data) = contextId data"
| "Key_pollContextId _ = FullMsgId_default"

text \<open>Which of \<^verbatim>\<open>peer()\<close>, \<^verbatim>\<open>settingsSelf()\<close>, \<^verbatim>\<open>isDownloads()\<close>, \<^verbatim>\<open>poll()\<close>
  yield a value, in this order.\<close>

definition Key_present :: "Key \<Rightarrow> bool list" where
  "Key_present k =
     [Key_peer k \<noteq> None, Key_settingsSelf k \<noteq> None, Key_isDownloads k, Key_poll k \<noteq> None]"

subsection \<open>Sections\<close>

text \<open>
  Modelled from the spec: \<^verbatim>\<open>Section\<close> is declared in info_controller.h and its media
  type \<^verbatim>\<open>Storage::SharedMediaType\<close> in storage_shared_media.h, neither among the
  sources. The spec gives a section a type out of Profile, Media, CommonGroups, Members,
  Downloads and further ones, and a media type that is meaningful for Media only. The
  source names five section types and, of the media types, only the sentinel
  \<^verbatim>\<open>kCount\<close>; the remaining enumerators are told apart by their number.
\<close>

datatype Section_Type = Profile | Media | CommonGroups | Members | Downloads | OtherType nat

datatype SharedMediaType = MediaKind nat | kCount

record Section =
  type :: Section_Type
  mediaType :: SharedMediaType

subsection \<open>Session data\<close>

text \<open>
  Modelled from the spec: the session data store (\<^verbatim>\<open>PeerData\<close>, \<^verbatim>\<open>HistoryItem\<close>,
  \<^verbatim>\<open>Data::Session\<close>) is an external collaborator. Of a peer the controller reads its id,
  whether it is a chat or a channel and its migration target and source; of a history item
  whether it is scheduled. \<open>peerData\<close> dereferences a peer reference, \<open>peerById\<close> is
  \<^verbatim>\<open>data().peer(id)\<close> and \<open>message\<close> is \<^verbatim>\<open>data().message(peerId, msgId)\<close>.
\<close>

record PeerData =
  id' :: PeerId
  isChat :: bool
  isChannel :: bool
  migrateTo :: "PeerPtr option"
  migrateFrom :: "PeerPtr option"

record HistoryItem =
  isScheduled :: bool

record Session_Data =
  peerData :: "PeerPtr \<Rightarrow> PeerData"
  peerById :: "PeerId \<Rightarrow> PeerPtr"
  message :: "PeerId \<Rightarrow> MsgId \<Rightarrow> HistoryItem option"

subsection \<open>Media sources\<close>

record SearchQuery =
  type :: SharedMediaType
  peerId :: PeerId
  migratedPeerId :: PeerId
  query :: string

text \<open>The default-constructed \<^verbatim>\<open>SearchQuery()\<close>; the enumeration's first value is 0.\<close>

definition SearchQuery_default :: SearchQuery where
  "SearchQuery_default = \<lparr>type = MediaKind 0, peerId = 0, migratedPeerId = 0, query = []\<rparr>"

text \<open>
  Modelled from the spec: \<^verbatim>\<open>Api::DelayedSearchController\<close> is an external collaborator
  with \<^verbatim>\<open>setQuery\<close>, \<^verbatim>\<open>currentQuery\<close>, \<^verbatim>\<open>idsSlice\<close>, \<^verbatim>\<open>saveState\<close> and
  \<^verbatim>\<open>restoreState\<close>. Its state is the current query and the cached lists, which are
  opaque here. A new controller has the default query; restoring a saved state makes the
  saved query current, and saving gives the state back.
\<close>

record SavedState =
  query :: SearchQuery
  lists :: "MsgId list"

type_synonym DelayedSearchController = SavedState

definition DelayedSearchController_new :: DelayedSearchController where
  "DelayedSearchController_new = \<lparr>query = SearchQuery_default, lists = []\<rparr>"

definition restoreState :: "DelayedSearchController \<Rightarrow> SavedState \<Rightarrow> DelayedSearchController" where
  "restoreState d st = st"

definition saveState :: "DelayedSearchController \<Rightarrow> SavedState" where
  "saveState d = d"

definition currentQuery :: "DelayedSearchController \<Rightarrow> SearchQuery" where
  "currentQuery d = SavedState.query d"

definition setQuery :: "DelayedSearchController \<Rightarrow> SearchQuery \<Rightarrow> DelayedSearchController" where
  "setQuery d q = d\<lparr>SavedState.query := q\<rparr>"

record SparseIdsMergedSlice_Key =
  peerId :: PeerId
  migratedPeerId :: PeerId
  universalId :: MsgId

record SharedMediaMergedKey =
  mergedKey :: SparseIdsMergedSlice_Key
  type :: SharedMediaType

text \<open>
  A \<^verbatim>\<open>rpl::producer<SparseIdsMergedSlice>\<close> is represented by the call that builds it:
  one of the two shared-media viewers with its key and limits (the session argument is
  the one session of the model), or the search controller's \<^verbatim>\<open>idsSlice\<close>.
\<close>

datatype MediaSource =
    SharedScheduledMediaViewer SharedMediaMergedKey int int
  | SharedMediaMergedViewer SharedMediaMergedKey int int
  | idsSlice DelayedSearchController MsgId int int

subsection \<open>Navigation snapshots\<close>

text \<open>
  Modelled from the spec: \<^verbatim>\<open>ContentMemento\<close> (info_content_widget.h) and
  \<^verbatim>\<open>Media::Memento\<close> (info_media_widget.h) are not among the sources. A snapshot
  carries a Key, a Section, the migrated peer's id (0 for none), the saved query text, the
  flags "search enabled by content" and "search starts focused", and, when it is a
  Media-kind snapshot, the saved search state. \<open>mediaSearchState\<close> is \<open>None\<close> exactly
  when \<^verbatim>\<open>dynamic_cast<Media::Memento*>\<close> gives \<^verbatim>\<open>nullptr\<close>. \<^verbatim>\<open>peer()\<close> and
  \<^verbatim>\<open>settingsSelf()\<close> of a snapshot are those of its Key.
\<close>

record ContentMemento =
  key :: Key
  section' :: Section
  migratedPeerId :: PeerId
  searchFieldQuery :: string
  searchEnabledByContent :: bool
  searchStartsFocused :: bool
  mediaSearchState :: "SavedState option"

definition ContentMemento_peer :: "ContentMemento \<Rightarrow> PeerPtr option" where
  "ContentMemento_peer memento = Key_peer (ContentMemento.key memento)"

definition ContentMemento_settingsSelf :: "ContentMemento \<Rightarrow> UserPtr option" where
  "ContentMemento_settingsSelf memento = Key_settingsSelf (ContentMemento.key memento)"

subsection \<open>Info::AbstractController\<close>

text \<open>
  \<^verbatim>\<open>key()\<close>, \<^verbatim>\<open>migrated()\<close> and \<^verbatim>\<open>section()\<close> are pure virtual; an object is seen
  through the values they return. \<open>parent\<close> is the window-level navigator
  \<^verbatim>\<open>_parent\<close>.
\<close>

record AbstractController =
  key :: Key
  migrated :: "PeerPtr option"
  section' :: Section
  parent :: WindowPtr

definition AbstractController_peer :: "'a AbstractController_scheme \<Rightarrow> PeerPtr option" where
  "AbstractController_peer c = Key_peer (key c)"

text \<open>Modelled from the spec: \<^verbatim>\<open>settingsSelf()\<close> is inline in info_controller.h; it
  resolves the settings owner from the Key.\<close>

definition AbstractController_settingsSelf :: "'a AbstractController_scheme \<Rightarrow> UserPtr option" where
  "AbstractController_settingsSelf c = Key_settingsSelf (key c)"

definition AbstractController_migratedPeerId ::
  "Session_Data \<Rightarrow> 'a AbstractController_scheme \<Rightarrow> PeerId" where
  "AbstractController_migratedPeerId s c =
     (case migrated c of Some p \<Rightarrow> id' (peerData s p) | None \<Rightarrow> 0)"

definition AbstractController_mediaSource ::
  "Session_Data \<Rightarrow> 'a AbstractController_scheme \<Rightarrow> MsgId \<Rightarrow> int \<Rightarrow> int \<Rightarrow> error + MediaSource" where
  "AbstractController_mediaSource s c aroundId limitBefore limitAfter =
     (case AbstractController_peer c of
        None \<Rightarrow> Inl ExpectsFailed
      | Some p \<Rightarrow>
          (let isScheduled =
                 (let peerId' = id' (peerData s p)
                  in case message s peerId' aroundId of
                       Some item' \<Rightarrow> HistoryItem.isScheduled item'
                     | None \<Rightarrow> False);
               mediaViewer =
                 (if isScheduled then SharedScheduledMediaViewer else SharedMediaMergedViewer)
           in Inr (mediaViewer
                \<lparr>mergedKey =
                   \<lparr>peerId = id' (peerData s p),
                    migratedPeerId = AbstractController_migratedPeerId s c,
                    universalId = aroundId\<rparr>,
                 type = Section.mediaType (section' c)\<rparr>
                limitBefore limitAfter)))"

subsection \<open>Downloads\<close>

text \<open>
  Modelled from the spec: the download manager is an external collaborator with a list of
  in-flight entries, each with its message reference and start timestamp
  (\<^verbatim>\<open>crl::time\<close>, a signed 64-bit count that is only compared here), and a
  notification for every change of the list.
\<close>

record DownloadObject =
  item :: ItemPtr

record DownloadingId =
  object :: DownloadObject
  started :: int

record DownloadsEntry =
  item :: ItemPtr
  started :: int

record DownloadsSlice =
  entries :: "DownloadsEntry list"

record DownloadManager =
  loadingList :: "DownloadingId list"

text \<open>The body of the \<^verbatim>\<open>rpl::map\<close>: the loop over the loading list, then
  \<^verbatim>\<open>ranges::sort\<close> by the projection \<^verbatim>\<open>&DownloadsEntry::started\<close>.\<close>

definition push_back_entry :: "DownloadsSlice \<Rightarrow> DownloadingId \<Rightarrow> DownloadsSlice" where
  "push_back_entry result i =
     result\<lparr>entries := entries result @
       [\<lparr>item = DownloadObject.item (object i), started = DownloadingId.started i\<rparr>]\<rparr>"

definition downloadsSlice :: "DownloadManager \<Rightarrow> DownloadsSlice" where
  "downloadsSlice manager =
     (let result = foldl push_back_entry \<lparr>entries = []\<rparr> (loadingList manager)
      in result\<lparr>entries := sort_key DownloadsEntry.started (entries result)\<rparr>)"

text \<open>
  The producer \<^verbatim>\<open>single(empty_value) | then(loadingListChanges()) | map(...)\<close> emits
  once on subscription and once per change notification. It is given the manager as it
  is at subscription and as it is at each later notification, and returns its emissions.
\<close>

definition AbstractController_downloadsSource ::
  "DownloadManager \<Rightarrow> DownloadManager list \<Rightarrow> DownloadsSlice list" where
  "AbstractController_downloadsSource manager changes = map downloadsSlice (manager # changes)"

subsection \<open>The window navigator and the event loop\<close>

text \<open>
  Modelled from the spec: the window navigator receives \<^verbatim>\<open>showSection(memento,
  params)\<close>, where the parameters carry a transition way, an animation mode and an
  activation reason. \<open>Memento peer section\<close> is \<^verbatim>\<open>std::make_shared<Memento>(peer,
  section)\<close>. \<^verbatim>\<open>InvokeQueued(widget, f)\<close> posts \<open>f\<close> to the event loop, which runs
  it on a later iteration: \<open>queued\<close> are the posted calls in order, \<open>shown\<close> the
  calls the navigator has received.
\<close>

datatype Way = Forward | Backward | ClearStack

datatype anim_type = normal | instant

datatype anim_activation = foreground | background

record SectionShow =
  way :: Way
  animated :: anim_type
  activation :: anim_activation

datatype Memento = Memento PeerPtr Section

datatype Call = showSection WindowPtr Memento SectionShow

record EventLoop =
  queued :: "(WidgetPtr \<times> Call) list"
  shown :: "Call list"

definition InvokeQueued :: "WidgetPtr \<Rightarrow> Call \<Rightarrow> EventLoop \<Rightarrow> EventLoop" where
  "InvokeQueued w f l = l\<lparr>queued := queued l @ [(w, f)]\<rparr>"

text \<open>One iteration of the event loop runs the posted calls.\<close>

definition EventLoop_process :: "EventLoop \<Rightarrow> EventLoop" where
  "EventLoop_process l = l\<lparr>queued := [], shown := shown l @ map snd (queued l)\<rparr>"

subsection \<open>Info::Controller\<close>

text \<open>
  Modelled from the spec: \<^verbatim>\<open>Ui::SearchFieldController\<close> is an external collaborator,
  built with an initial text, with \<^verbatim>\<open>query()\<close> for the current text and
  \<^verbatim>\<open>queryValue()\<close> for the live text. \<open>forwards\<close> records the subscription that
  updateSearchControllers stores in the field controller's lifetime. A value producer
  delivers the current value on subscription and every later value (spec, section 5).
\<close>

record SearchFieldController =
  query :: string
  forwards :: bool

definition SearchFieldController_new :: "string \<Rightarrow> SearchFieldController" where
  "SearchFieldController_new q = \<lparr>query = q, forwards = False\<rparr>"

text \<open>
  The members of \<^verbatim>\<open>Controller\<close>; \<^verbatim>\<open>_key\<close>, \<^verbatim>\<open>_migrated\<close> and \<^verbatim>\<open>_section\<close> are
  what its \<^verbatim>\<open>key()\<close>, \<^verbatim>\<open>migrated()\<close> and \<^verbatim>\<open>section()\<close> return.
  \<open>migrationViewer\<close> is the subscription that setupMigrationViewer stores in the
  controller's lifetime: the peer whose Migration flag is watched.
\<close>

record Controller = AbstractController +
  widget :: WidgetPtr
  searchController :: "DelayedSearchController option"
  searchFieldController :: "SearchFieldController option"
  seachEnabledByContent :: bool
  searchStartsFocused :: bool
  migrationViewer :: "PeerPtr option"

definition Controller_produceSearchQuery ::
  "Session_Data \<Rightarrow> Controller \<Rightarrow> string \<Rightarrow> error + SearchQuery" where
  "Controller_produceSearchQuery s c q =
     (case Key_peer (key c) of
        None \<Rightarrow> Inl ExpectsFailed
      | Some p \<Rightarrow>
          Inr (SearchQuery_default
            \<lparr>SearchQuery.type := Section.mediaType (section' c),
             SearchQuery.peerId := id' (peerData s p),
             SearchQuery.query := q,
             SearchQuery.migratedPeerId :=
               (case migrated c of Some m \<Rightarrow> id' (peerData s m) | None \<Rightarrow> 0)\<rparr>))"

text \<open>The handler subscribed to \<^verbatim>\<open>queryValue()\<close>.\<close>

definition Controller_queryNext ::
  "Session_Data \<Rightarrow> Controller \<Rightarrow> string \<Rightarrow> error + Controller" where
  "Controller_queryNext s c q =
     (case Controller_produceSearchQuery s c q of
        Inl e \<Rightarrow> Inl e
      | Inr sq \<Rightarrow>
          (case searchController c of
             None \<Rightarrow> Inl NullDereference
           | Some d \<Rightarrow> Inr (c\<lparr>searchController := Some (setQuery d sq)\<rparr>)))"

text \<open>
  The first block of updateSearchControllers (the \<^verbatim>\<open>if (isMedia)\<close> with its
  \<^verbatim>\<open>else\<close>): the search controller is created and restored from the snapshot, which
  must be a Media-kind snapshot, or it is reset.
\<close>

definition Controller_restoreSearchController ::
  "bool \<Rightarrow> Controller \<Rightarrow> ContentMemento \<Rightarrow> error + Controller" where
  "Controller_restoreSearchController isMedia c memento =
     (if isMedia
      then (case mediaSearchState memento of
              None \<Rightarrow> Inl AssertFailed
            | Some st \<Rightarrow>
                Inr (c\<lparr>searchController :=
                         Some (restoreState DelayedSearchController_new st)\<rparr>))
      else Inr (c\<lparr>searchController := None\<rparr>))"

text \<open>
  The subscription \<^verbatim>\<open>queryValue() | rpl::start_with_next(...)\<close>, stored in the field
  controller's lifetime: the handler is registered and receives the current text at once.
\<close>

definition Controller_forwardQueryValue :: "Session_Data \<Rightarrow> Controller \<Rightarrow> error + Controller" where
  "Controller_forwardQueryValue s c =
     (case searchFieldController c of
        None \<Rightarrow> Inl NullDereference
      | Some field \<Rightarrow>
          Controller_queryNext s
            (c\<lparr>searchFieldController := Some (field\<lparr>forwards := True\<rparr>)\<rparr>)
            (SearchFieldController.query field))"

text \<open>
  The second block: the field controller is created with the saved query text and, when
  a search controller exists, its \<^verbatim>\<open>queryValue()\<close> is forwarded to the search
  controller; then the two flags are copied. Otherwise the field controller is reset.
\<close>

definition Controller_setupSearchField ::
  "Session_Data \<Rightarrow> bool \<Rightarrow> Controller \<Rightarrow> ContentMemento \<Rightarrow> error + Controller" where
  "Controller_setupSearchField s hasSearch c memento =
     (let searchQuery = searchFieldQuery memento
      in if hasSearch
         then (let c1 = c\<lparr>searchFieldController :=
                            Some (SearchFieldController_new searchQuery)\<rparr>
               in case (if searchController c1 \<noteq> None
                        then Controller_forwardQueryValue s c1
                        else Inr c1) of
                    Inl e \<Rightarrow> Inl e
                  | Inr c2 \<Rightarrow>
                      Inr (c2\<lparr>seachEnabledByContent :=
                                 ContentMemento.searchEnabledByContent memento,
                               searchStartsFocused :=
                                 ContentMemento.searchStartsFocused memento\<rparr>))
         else Inr (c\<lparr>searchFieldController := None\<rparr>))"

text \<open>
  \<open>allowSearch\<close> is \<^verbatim>\<open>SharedMediaAllowSearch\<close>, which is defined outside the sources.
\<close>

definition Controller_updateSearchControllers ::
  "(SharedMediaType \<Rightarrow> bool) \<Rightarrow> Session_Data \<Rightarrow> Controller \<Rightarrow> ContentMemento
     \<Rightarrow> error + Controller" where
  "Controller_updateSearchControllers allowSearch s c memento =
     (let type' = Section.type (section' c);
          isMedia = (type' = Media);
          mediaType' = (if isMedia then Section.mediaType (section' c) else kCount);
          hasMediaSearch = (isMedia \<and> allowSearch mediaType');
          hasCommonGroupsSearch = (type' = CommonGroups);
          hasMembersSearch = (type' = Members \<or> type' = Profile);
          isDownloads = (type' = Downloads)
      in case Controller_restoreSearchController isMedia c memento of
           Inl e \<Rightarrow> Inl e
         | Inr c1 \<Rightarrow>
             Controller_setupSearchField s
               (hasMediaSearch \<or> hasCommonGroupsSearch \<or> hasMembersSearch) c1 memento)"

definition Controller_setSection ::
  "(SharedMediaType \<Rightarrow> bool) \<Rightarrow> Session_Data \<Rightarrow> Controller \<Rightarrow> ContentMemento
     \<Rightarrow> error + Controller" where
  "Controller_setSection allowSearch s c memento =
     Controller_updateSearchControllers allowSearch s
       (c\<lparr>section' := ContentMemento.section' memento\<rparr>) memento"

text \<open>The two blocks of saveSearchState: the field controller's text and the flag are
  written to the snapshot; then, when a search controller exists, its state is written
  to the snapshot, which must be a Media-kind snapshot.\<close>

definition Controller_saveSearchField :: "Controller \<Rightarrow> ContentMemento \<Rightarrow> ContentMemento" where
  "Controller_saveSearchField c memento =
     (case searchFieldController c of
        Some field \<Rightarrow>
          memento\<lparr>searchFieldQuery := SearchFieldController.query field,
                  searchEnabledByContent := seachEnabledByContent c\<rparr>
      | None \<Rightarrow> memento)"

definition Controller_saveSearchController ::
  "Controller \<Rightarrow> ContentMemento \<Rightarrow> error + ContentMemento" where
  "Controller_saveSearchController c memento =
     (case searchController c of
        None \<Rightarrow> Inr memento
      | Some d \<Rightarrow>
          (case mediaSearchState memento of
             None \<Rightarrow> Inl AssertFailed
           | Some _ \<Rightarrow> Inr (memento\<lparr>mediaSearchState := Some (saveState d)\<rparr>)))"

definition Controller_saveSearchState :: "Controller \<Rightarrow> ContentMemento \<Rightarrow> error + ContentMemento" where
  "Controller_saveSearchState c memento =
     Controller_saveSearchController c (Controller_saveSearchField c memento)"

text \<open>
  A change of the query field's text by the user: the field controller holds the new
  text and \<^verbatim>\<open>queryValue()\<close> delivers it to the forwarding subscription.
\<close>

definition Controller_queryChanged ::
  "Session_Data \<Rightarrow> Controller \<Rightarrow> string \<Rightarrow> error + Controller" where
  "Controller_queryChanged s c q =
     (case searchFieldController c of
        None \<Rightarrow> Inr c
      | Some field \<Rightarrow>
          (let c1 = c\<lparr>searchFieldController := Some (field\<lparr>SearchFieldController.query := q\<rparr>)\<rparr>
           in if forwards field then Controller_queryNext s c1 q else Inr c1))"

definition Controller_validateMementoPeer ::
  "Session_Data \<Rightarrow> Controller \<Rightarrow> ContentMemento \<Rightarrow> bool" where
  "Controller_validateMementoPeer s c memento =
     (ContentMemento_peer memento = AbstractController_peer c
      \<and> ContentMemento.migratedPeerId memento = AbstractController_migratedPeerId s c
      \<and> ContentMemento_settingsSelf memento = AbstractController_settingsSelf c)"

definition Controller_mediaSource ::
  "Controller \<Rightarrow> MsgId \<Rightarrow> int \<Rightarrow> int \<Rightarrow> error + MediaSource" where
  "Controller_mediaSource c aroundId limitBefore limitAfter =
     (case searchController c of
        None \<Rightarrow> Inl NullDereference
      | Some d \<Rightarrow>
          (let query' = currentQuery d
           in if SearchQuery.query query' \<noteq> []
              then Inr (idsSlice d aroundId limitBefore limitAfter)
              else Inr (SharedMediaMergedViewer
                     \<lparr>mergedKey =
                        \<lparr>peerId = SearchQuery.peerId query',
                         migratedPeerId = SearchQuery.migratedPeerId query',
                         universalId = aroundId\<rparr>,
                      type = SearchQuery.type query'\<rparr>
                     limitBefore limitAfter)))"

subsection \<open>The migration watcher\<close>

text \<open>
  Modelled from the spec: \<^verbatim>\<open>peerFlagsValue(peer, flag)\<close> is the session's stream of
  flag changes of one peer, filtered by flag kind; as a value producer it fires once on
  subscription. \<open>Controller_peerFlagsNext\<close> is the \<^verbatim>\<open>rpl::filter\<close> followed by the
  \<^verbatim>\<open>rpl::start_with_next\<close> handler, run on the session data of that moment.
\<close>

datatype PeerUpdate_Flag = Migration | OtherFlag nat

definition Controller_peerFlagsNext ::
  "Session_Data \<Rightarrow> Controller \<Rightarrow> PeerPtr \<Rightarrow> EventLoop \<Rightarrow> EventLoop" where
  "Controller_peerFlagsNext s c p l =
     (if migrateTo (peerData s p) \<noteq> None \<or> migrateFrom (peerData s p) \<noteq> migrated c
      then (let window = parent c;
                section = section' c
            in InvokeQueued (widget c)
                 (showSection window (Memento p section)
                    \<lparr>way = Backward, animated = instant, activation = background\<rparr>)
                 l)
      else l)"

definition Controller_setupMigrationViewer ::
  "Session_Data \<Rightarrow> Controller \<Rightarrow> EventLoop \<Rightarrow> Controller \<times> EventLoop" where
  "Controller_setupMigrationViewer s c l =
     (case Key_peer (key c) of
        None \<Rightarrow> (c, l)
      | Some p \<Rightarrow>
          if (\<not> isChat (peerData s p) \<and> \<not> isChannel (peerData s p)) \<or> migrated c \<noteq> None
          then (c, l)
          else (c\<lparr>migrationViewer := Some p\<rparr>, Controller_peerFlagsNext s c p l))"

text \<open>A change of flag \<open>flag\<close> of peer \<open>p\<close> reaches the watcher when it is
  subscribed to that peer and the flag is Migration.\<close>

definition Controller_peerFlagsChanged ::
  "Session_Data \<Rightarrow> Controller \<Rightarrow> PeerPtr \<Rightarrow> PeerUpdate_Flag \<Rightarrow> EventLoop \<Rightarrow> EventLoop" where
  "Controller_peerFlagsChanged s c p flag l =
     (if migrationViewer c = Some p \<and> flag = Migration
      then Controller_peerFlagsNext s c p l
      else l)"

text \<open>
  The constructor. Modelled from the spec: the in-class initialisers of
  \<^verbatim>\<open>_seachEnabledByContent\<close> and \<^verbatim>\<open>_searchStartsFocused\<close> are in the header; both
  flags start out false.
\<close>

definition Controller_new ::
  "(SharedMediaType \<Rightarrow> bool) \<Rightarrow> Session_Data \<Rightarrow> EventLoop \<Rightarrow> WidgetPtr \<Rightarrow> WindowPtr
     \<Rightarrow> ContentMemento \<Rightarrow> error + Controller \<times> EventLoop" where
  "Controller_new allowSearch s l widget' window memento =
     (let c = \<lparr>key = ContentMemento.key memento,
               migrated =
                 (if ContentMemento.migratedPeerId memento \<noteq> 0
                  then Some (peerById s (ContentMemento.migratedPeerId memento))
                  else None),
               section' = ContentMemento.section' memento,
               parent = window,
               widget = widget',
               searchController = None,
               searchFieldController = None,
               seachEnabledByContent = False,
               searchStartsFocused = False,
               migrationViewer = None\<rparr>
      in case Controller_updateSearchControllers allowSearch s c memento of
           Inl e \<Rightarrow> Inl e
         | Inr c1 \<Rightarrow> Inr (Controller_setupMigrationViewer s c1 l))"

subsection \<open>Controller states\<close>

text \<open>
  The states a controller can be in: built by the constructor, then changed by
  setSection, by the user editing the query field, by the search controller's own
  progress (its state is its own matter) and by \<^verbatim>\<open>setSearchEnabledByContent\<close>. The
  session data may differ from step to step.
\<close>

inductive Controller_reachable :: "(SharedMediaType \<Rightarrow> bool) \<Rightarrow> Controller \<Rightarrow> bool"
  for allowSearch :: "SharedMediaType \<Rightarrow> bool" where
  constructed:
    "Controller_new allowSearch s l w window memento = Inr (c, l')
      \<Longrightarrow> Controller_reachable allowSearch c"
| setSection:
    "Controller_reachable allowSearch c
      \<Longrightarrow> Controller_setSection allowSearch s c memento = Inr c'
      \<Longrightarrow> Controller_reachable allowSearch c'"
| queryChanged:
    "Controller_reachable allowSearch c
      \<Longrightarrow> Controller_queryChanged s c q = Inr c'
      \<Longrightarrow> Controller_reachable allowSearch c'"
| searchProgress:
    "Controller_reachable allowSearch c
      \<Longrightarrow> searchController c = Some d
      \<Longrightarrow> Controller_reachable allowSearch (c\<lparr>searchController := Some d'\<rparr>)"
| setSearchEnabledByContent:
    "Controller_reachable allowSearch c
      \<Longrightarrow> Controller_reachable allowSearch (c\<lparr>seachEnabledByContent := enabled\<rparr>)"

text \<open>
  The sections with a query field: media search, common-groups search or members search
  (the three conditions of updateSearchControllers).
\<close>

definition Section_supportsSearch :: "(SharedMediaType \<Rightarrow> bool) \<Rightarrow> Section \<Rightarrow> bool" where
  "Section_supportsSearch allowSearch sec =
     (Section.type sec = Media \<and> allowSearch (Section.mediaType sec)
      \<or> Section.type sec = CommonGroups
      \<or> Section.type sec = Members \<or> Section.type sec = Profile)"

subsection \<open>Example values\<close>

text \<open>
  A session with the chat 1 and the channel 2, where message 7 is scheduled; media kind 4
  allows search. A Media snapshot of peer 1 with the saved query "cats", and the
  controller the constructor builds from it for widget 10 and window 20. A Downloads
  snapshot and its controller.
\<close>

definition example_session :: Session_Data where
  "example_session =
     \<lparr>peerData = (\<lambda>p. \<lparr>id' = of_nat p, isChat = (p = 1), isChannel = (p = 2),
                          migrateTo = None, migrateFrom = None\<rparr>),
      peerById = unat,
      message = (\<lambda>p m. if m = 7 then Some \<lparr>isScheduled = True\<rparr> else None)\<rparr>"

definition example_allowSearch :: "SharedMediaType \<Rightarrow> bool" where
  "example_allowSearch t = (t = MediaKind 4)"

definition example_memento :: ContentMemento where
  "example_memento =
     \<lparr>ContentMemento.key = Key_Peer 1,
      section' = \<lparr>Section.type = Media, mediaType = MediaKind 4\<rparr>,
      migratedPeerId = 0,
      searchFieldQuery = ''cats'',
      searchEnabledByContent = True,
      searchStartsFocused = False,
      mediaSearchState = Some \<lparr>SavedState.query = SearchQuery_default, lists = []\<rparr>\<rparr>"

definition example_controller :: Controller where
  "example_controller =
     \<lparr>key = Key_Peer 1, migrated = None,
      section' = \<lparr>Section.type = Media, mediaType = MediaKind 4\<rparr>,
      parent = 20, widget = 10,
      searchController =
        Some \<lparr>SavedState.query =
                \<lparr>SearchQuery.type = MediaKind 4, peerId = 1, migratedPeerId = 0,
                 query = ''cats''\<rparr>,
              lists = []\<rparr>,
      searchFieldController =
        Some \<lparr>SearchFieldController.query = ''cats'', forwards = True\<rparr>,
      seachEnabledByContent = True, searchStartsFocused = False,
      migrationViewer = Some 1\<rparr>"

definition example_downloads_memento :: ContentMemento where
  "example_downloads_memento =
     \<lparr>ContentMemento.key = Key_Downloads,
      section' = \<lparr>Section.type = Downloads, mediaType = kCount\<rparr>,
      migratedPeerId = 0,
      searchFieldQuery = ''a'',
      searchEnabledByContent = True,
      searchStartsFocused = False,
      mediaSearchState = None\<rparr>"

definition example_downloads_controller :: Controller where
  "example_downloads_controller =
     \<lparr>key = Key_Downloads, migrated = None,
      section' = \<lparr>Section.type = Downloads, mediaType = kCount\<rparr>,
      parent = 20, widget = 10,
      searchController = None,
      searchFieldController = None,
      seachEnabledByContent = False, searchStartsFocused = False,
      migrationViewer = None\<rparr>"

text \<open>The example session after the chat 1 has migrated to the channel 2.\<close>

definition example_session_migrated :: Session_Data where
  "example_session_migrated =
     example_session\<lparr>peerData :=
       (peerData example_session)(1 := (peerData example_session 1)\<lparr>migrateTo := Some 2\<rparr>)\<rparr>"

text \<open>The entry built for one in-flight download.\<close>

definition DownloadsEntry_of :: "DownloadingId \<Rightarrow> DownloadsEntry" where
  "DownloadsEntry_of i =
     \<lparr>item = DownloadObject.item (object i), started = DownloadingId.started i\<rparr>"

section \<open>Properties\<close>

subsection \<open>Info::Key\<close>

text \<open>
  C5. For every Key, whichever of the four constructors built it, exactly one of the
  accessors peer(), settingsSelf(), isDownloads(), poll() yields a present value, namely
  the one of the stored alternative (with the stored reference), and every other accessor
  returns nullptr or false.
\<close>

theorem Key_exactly_one_accessor_present:
  "length (filter (\<lambda>b. b) (Key_present k)) = 1
   \<and> Key_present (Key_from_peer p) = [True, False, False, False]
   \<and> Key_peer (Key_from_peer p) = Some p
   \<and> Key_present (Key_from_settings settings) = [False, True, False, False]
   \<and> Key_settingsSelf (Key_from_settings settings) = Some (self settings)
   \<and> Key_present Key_from_downloads = [False, False, True, False]
   \<and> Key_present (Key_from_poll q ctx) = [False, False, False, True]
   \<and> Key_poll (Key_from_poll q ctx) = Some q"
  by (cases k)
    (simp_all add: Key_present_def Key_from_peer_def Key_from_settings_def
      Key_from_downloads_def Key_from_poll_def)

subsection \<open>AbstractController::mediaSource\<close>

text \<open>
  C7. When the Key resolves to no peer, AbstractController::mediaSource fails its
  precondition. When it resolves to a peer, the result is the scheduled viewer if the
  session has a message at aroundId for the peer's id and that message is scheduled, and
  the merged-history viewer otherwise, on the key made of the peer's id, the migrated
  peer's id (0 when there is none), the anchor id and the section's media type, with the
  given limits.
\<close>

theorem AbstractController_mediaSource_result:
  "AbstractController_mediaSource s c aroundId limitBefore limitAfter =
     (case Key_peer (key c) of
        None \<Rightarrow> Inl ExpectsFailed
      | Some p \<Rightarrow>
          Inr ((if message s (id' (peerData s p)) aroundId = Some \<lparr>isScheduled = True\<rparr>
                then SharedScheduledMediaViewer else SharedMediaMergedViewer)
            \<lparr>mergedKey =
               \<lparr>peerId = id' (peerData s p),
                migratedPeerId =
                  (case migrated c of None \<Rightarrow> 0 | Some m \<Rightarrow> id' (peerData s m)),
                universalId = aroundId\<rparr>,
             type = Section.mediaType (section' c)\<rparr>
            limitBefore limitAfter))"
proof (cases "Key_peer (key c)")
  case None
  then show ?thesis
    by (simp add: AbstractController_mediaSource_def AbstractController_peer_def)
next
  case (Some p)
  show ?thesis
  proof (cases "message s (id' (peerData s p)) aroundId")
    case None
    with Some show ?thesis
      by (simp add: AbstractController_mediaSource_def AbstractController_peer_def
          AbstractController_migratedPeerId_def)
  next
    case (Some it)
    have "(it = \<lparr>isScheduled = True\<rparr>) = HistoryItem.isScheduled it"
      by (cases it) simp
    with Some \<open>Key_peer (key c) = Some p\<close> show ?thesis
      by (simp add: AbstractController_mediaSource_def AbstractController_peer_def
          AbstractController_migratedPeerId_def)
  qed
qed

subsection \<open>AbstractController::downloadsSource\<close>

lemma foldl_push_back_entry:
  "foldl push_back_entry r xs = r\<lparr>entries := entries r @ map DownloadsEntry_of xs\<rparr>"
  by (induction xs arbitrary: r) (simp_all add: push_back_entry_def DownloadsEntry_of_def)

lemma downloadsSlice_entries:
  "entries (downloadsSlice m) =
     sort_key DownloadsEntry.started (map DownloadsEntry_of (loadingList m))"
  by (simp add: downloadsSlice_def foldl_push_back_entry)

lemma sort_key_keys_of_permutation:
  assumes "mset xs = mset ys"
  shows "map f (sort_key f xs) = map f (sort_key f ys)"
proof -
  have "mset (map f (sort_key f xs)) = mset (map f (sort_key f ys))"
    using assms by (metis mset_map mset_sort)
  then show ?thesis
    by (metis properties_for_sort sorted_sort_key)
qed

text \<open>
  C6. downloadsSource emits once on subscription and once more for every change
  notification. Each emission is rebuilt from the loading list the manager has at that
  moment: it holds exactly one entry per in-flight item, with the item's message
  reference and start timestamp, and is sorted non-decreasing by started. Two loading
  lists that are permutations of each other give the same sequence of start timestamps.
\<close>

theorem downloadsSource_emissions_sorted_rebuild:
  assumes "mset (loadingList m1) = mset (loadingList m2)"
  shows "length (AbstractController_downloadsSource m ms) = 1 + length ms
    \<and> AbstractController_downloadsSource m [] = [downloadsSlice m]
    \<and> list_all (\<lambda>e. sorted (map DownloadsEntry.started (entries e)))
         (AbstractController_downloadsSource m ms)
    \<and> map (\<lambda>e. mset (entries e)) (AbstractController_downloadsSource m ms)
         = map (\<lambda>m'. mset (map DownloadsEntry_of (loadingList m'))) (m # ms)
    \<and> map DownloadsEntry.started (entries (downloadsSlice m1))
         = map DownloadsEntry.started (entries (downloadsSlice m2))"
proof -
  have "mset (map DownloadsEntry_of (loadingList m1))
      = mset (map DownloadsEntry_of (loadingList m2))"
    using assms by (metis mset_map)
  then have "map DownloadsEntry.started (entries (downloadsSlice m1))
      = map DownloadsEntry.started (entries (downloadsSlice m2))"
    unfolding downloadsSlice_entries by (rule sort_key_keys_of_permutation)
  then show ?thesis
    by (simp add: AbstractController_downloadsSource_def downloadsSlice_entries list_all_iff)
qed

theorem downloadsSource_emissions_witness:
  "map entries (AbstractController_downloadsSource
      \<lparr>loadingList = [\<lparr>object = \<lparr>DownloadObject.item = 7\<rparr>, started = 5\<rparr>,
                      \<lparr>object = \<lparr>DownloadObject.item = 8\<rparr>, started = 3\<rparr>]\<rparr>
      [\<lparr>loadingList = []\<rparr>])
     = [[\<lparr>item = 8, started = 3\<rparr>, \<lparr>item = 7, started = 5\<rparr>], []]
   \<and> map DownloadsEntry.started (entries (downloadsSlice
        \<lparr>loadingList = [\<lparr>object = \<lparr>DownloadObject.item = 7\<rparr>, started = 5\<rparr>,
                        \<lparr>object = \<lparr>DownloadObject.item = 8\<rparr>, started = 3\<rparr>]\<rparr>))
     = map DownloadsEntry.started (entries (downloadsSlice
        \<lparr>loadingList = [\<lparr>object = \<lparr>DownloadObject.item = 8\<rparr>, started = 3\<rparr>,
                        \<lparr>object = \<lparr>DownloadObject.item = 7\<rparr>, started = 5\<rparr>]\<rparr>))"
proof -
  let ?a = "\<lparr>object = \<lparr>DownloadObject.item = 7\<rparr>, started = 5\<rparr>"
  let ?b = "\<lparr>object = \<lparr>DownloadObject.item = 8\<rparr>, started = 3\<rparr>"
  have perm: "mset (loadingList \<lparr>loadingList = [?a, ?b]\<rparr>)
      = mset (loadingList \<lparr>loadingList = [?b, ?a]\<rparr>)"
    by (simp add: add.commute)
  have "map entries (AbstractController_downloadsSource \<lparr>loadingList = [?a, ?b]\<rparr>
      [\<lparr>loadingList = []\<rparr>]) = [[\<lparr>item = 8, started = 3\<rparr>, \<lparr>item = 7, started = 5\<rparr>], []]"
    by (simp add: AbstractController_downloadsSource_def downloadsSlice_def
        push_back_entry_def)
  with downloadsSource_emissions_sorted_rebuild [OF perm] show ?thesis
    by simp
qed

subsection \<open>The search controller exists exactly in Media sections\<close>

lemma setupSearchField_unfold:
  "Controller_setupSearchField s hasSearch c memento =
     (if hasSearch
      then (case (if searchController c \<noteq> None
                  then Controller_queryNext s
                         (c\<lparr>searchFieldController :=
                              Some \<lparr>SearchFieldController.query = searchFieldQuery memento,
                                    forwards = True\<rparr>\<rparr>)
                         (searchFieldQuery memento)
                  else Inr (c\<lparr>searchFieldController :=
                                Some \<lparr>SearchFieldController.query = searchFieldQuery memento,
                                      forwards = False\<rparr>\<rparr>)) of
              Inl e \<Rightarrow> Inl e
            | Inr c' \<Rightarrow>
                Inr (c'\<lparr>seachEnabledByContent :=
                           ContentMemento.searchEnabledByContent memento,
                         searchStartsFocused :=
                           ContentMemento.searchStartsFocused memento\<rparr>))
      else Inr (c\<lparr>searchFieldController := None\<rparr>))"
  by (simp add: Controller_setupSearchField_def Controller_forwardQueryValue_def
      SearchFieldController_new_def Let_def)

lemma queryNext_searchController:
  "Controller_queryNext s c q = Inr c' \<Longrightarrow>
     (searchController c' \<noteq> None) = (searchController c \<noteq> None)
     \<and> section' c' = section' c \<and> searchFieldController c' = searchFieldController c
     \<and> key c' = key c \<and> migrated c' = migrated c"
  by (auto simp: Controller_queryNext_def split: sum.splits option.splits)

lemma restoreSearchController_exists:
  "Controller_restoreSearchController isMedia c memento = Inr c1 \<Longrightarrow>
     (searchController c1 \<noteq> None) = isMedia \<and> section' c1 = section' c"
  by (auto simp: Controller_restoreSearchController_def split: if_splits option.splits)

lemma setupSearchField_keeps:
  "Controller_setupSearchField s hasSearch c memento = Inr c' \<Longrightarrow>
     (searchController c' \<noteq> None) = (searchController c \<noteq> None) \<and> section' c' = section' c"
  by (auto simp: setupSearchField_unfold Let_def split: if_splits sum.splits
      dest!: queryNext_searchController)

lemma updateSearchControllers_searchController:
  assumes "Controller_updateSearchControllers allowSearch s c memento = Inr c'"
  shows "(searchController c' \<noteq> None) = (Section.type (section' c) = Media)
    \<and> section' c' = section' c"
  using assms
  by (auto simp: Controller_updateSearchControllers_def Let_def split: sum.splits
      dest!: restoreSearchController_exists setupSearchField_keeps)

lemma setupMigrationViewer_keeps:
  "Controller_setupMigrationViewer s c l = (c', l') \<Longrightarrow>
     searchController c' = searchController c \<and> section' c' = section' c"
  by (auto simp: Controller_setupMigrationViewer_def split: option.splits if_splits)

lemma queryChanged_keeps:
  "Controller_queryChanged s c q = Inr c' \<Longrightarrow>
     (searchController c' \<noteq> None) = (searchController c \<noteq> None) \<and> section' c' = section' c"
  by (auto simp: Controller_queryChanged_def Let_def split: option.splits if_splits
      dest!: queryNext_searchController)

lemma reachable_searchController:
  "Controller_reachable allowSearch c \<Longrightarrow>
     (searchController c \<noteq> None) = (Section.type (section' c) = Media)"
proof (induction rule: Controller_reachable.induct)
  case (constructed s l w window memento c l')
  then show ?case
    by (auto simp: Controller_new_def Let_def split: sum.splits
        dest!: updateSearchControllers_searchController setupMigrationViewer_keeps)
next
  case (setSection c s memento c')
  then show ?case
    by (auto simp: Controller_setSection_def dest!: updateSearchControllers_searchController)
next
  case (queryChanged c s q c')
  then show ?case by (auto dest!: queryChanged_keeps)
next
  case (searchProgress c d d')
  then show ?case by auto
next
  case (setSearchEnabledByContent c enabled)
  then show ?case by simp
qed

lemmas example_unfold =
  Controller_new_def Controller_updateSearchControllers_def
  Controller_restoreSearchController_def setupSearchField_unfold
  Controller_queryNext_def Controller_produceSearchQuery_def
  Controller_setupMigrationViewer_def Controller_peerFlagsNext_def
  example_session_def example_allowSearch_def example_memento_def example_controller_def
  example_downloads_memento_def example_downloads_controller_def
  restoreState_def setQuery_def SearchFieldController_new_def SearchQuery_default_def
  DelayedSearchController_new_def Let_def

lemma example_controller_constructed:
  "Controller_new example_allowSearch example_session \<lparr>queued = [], shown = []\<rparr> 10 20
     example_memento = Inr (example_controller, \<lparr>queued = [], shown = []\<rparr>)"
  by (simp add: example_unfold)

lemma example_controller_reachable:
  "Controller_reachable example_allowSearch example_controller"
  by (rule Controller_reachable.constructed [OF example_controller_constructed])

lemma example_downloads_controller_constructed:
  "Controller_new example_allowSearch example_session \<lparr>queued = [], shown = []\<rparr> 10 20
     example_downloads_memento
     = Inr (example_downloads_controller, \<lparr>queued = [], shown = []\<rparr>)"
  by (simp add: example_unfold)

lemma example_downloads_controller_reachable:
  "Controller_reachable example_allowSearch example_downloads_controller"
  by (rule Controller_reachable.constructed [OF example_downloads_controller_constructed])

subsection \<open>Controller::mediaSource\<close>

text \<open>
  C2. For every controller state whose section type is Media, the search controller
  exists and Controller::mediaSource returns its idsSlice(aroundId, limitBefore,
  limitAfter) when the text of its current query is not empty; when the text is empty it
  returns the merged-history viewer on the key made of the current query's peerId and
  migratedPeerId, the anchor id and the current query's media type, with the given
  limits.
\<close>

theorem Controller_mediaSource_media_section:
  assumes "Controller_reachable allowSearch c"
    and "Section.type (section' c) = Media"
  shows "\<exists>d. searchController c = Some d
    \<and> Controller_mediaSource c aroundId limitBefore limitAfter =
        Inr (if SearchQuery.query (currentQuery d) \<noteq> []
             then idsSlice d aroundId limitBefore limitAfter
             else SharedMediaMergedViewer
                    \<lparr>mergedKey =
                       \<lparr>peerId = SearchQuery.peerId (currentQuery d),
                        migratedPeerId = SearchQuery.migratedPeerId (currentQuery d),
                        universalId = aroundId\<rparr>,
                     type = SearchQuery.type (currentQuery d)\<rparr>
                    limitBefore limitAfter)"
proof -
  have "searchController c \<noteq> None"
    using reachable_searchController [OF assms(1)] assms(2) by simp
  then obtain d where d: "searchController c = Some d"
    by blast
  then show ?thesis
    by (simp add: Controller_mediaSource_def Let_def)
qed

theorem Controller_mediaSource_media_section_witness:
  "Controller_reachable example_allowSearch example_controller
   \<and> Section.type (section' example_controller) = Media
   \<and> Controller_mediaSource example_controller 5 10 10
       = Inr (idsSlice \<lparr>SavedState.query =
                \<lparr>SearchQuery.type = MediaKind 4, peerId = 1, migratedPeerId = 0,
                 query = ''cats''\<rparr>,
              lists = []\<rparr> 5 10 10)"
proof -
  have media: "Section.type (section' example_controller) = Media"
    by (simp add: example_controller_def)
  from Controller_mediaSource_media_section [OF example_controller_reachable media, of 5 10 10]
  show ?thesis
    using example_controller_reachable media
    by (auto simp: example_controller_def currentQuery_def)
qed

text \<open>
  C10. Controller::mediaSource dereferences the search controller before anything else:
  for any controller value it is the null dereference exactly when the search controller
  is absent, and a result otherwise. In every controller state the search controller
  exists exactly when the section type is Media, so there the operation is defined
  exactly for Media sections and undefined for every other section.
\<close>

theorem Controller_mediaSource_needs_searchController:
  assumes "Controller_reachable allowSearch c"
  shows "(Controller_mediaSource c0 aroundId limitBefore limitAfter = Inl NullDereference)
           = (searchController c0 = None)
    \<and> isl (Controller_mediaSource c0 aroundId limitBefore limitAfter)
           = (searchController c0 = None)
    \<and> (searchController c = None) = (Section.type (section' c) \<noteq> Media)
    \<and> isl (Controller_mediaSource c aroundId limitBefore limitAfter)
           = (Section.type (section' c) \<noteq> Media)
    \<and> (Controller_mediaSource c aroundId limitBefore limitAfter = Inl NullDereference)
           = (Section.type (section' c) \<noteq> Media)"
proof -
  have any: "(Controller_mediaSource k aroundId limitBefore limitAfter = Inl NullDereference)
           = (searchController k = None)
    \<and> isl (Controller_mediaSource k aroundId limitBefore limitAfter)
           = (searchController k = None)" for k
    by (simp add: Controller_mediaSource_def Let_def split: option.splits)
  from assms have "(searchController c = None) = (Section.type (section' c) \<noteq> Media)"
    using reachable_searchController by blast
  with any [of c] any [of c0] show ?thesis
    by simp
qed

theorem Controller_mediaSource_needs_searchController_witness:
  "Controller_reachable example_allowSearch example_downloads_controller
   \<and> Controller_mediaSource example_downloads_controller 5 10 10 = Inl NullDereference
   \<and> \<not> isl (Controller_mediaSource example_controller 5 10 10)"
  using example_downloads_controller_reachable
    Controller_mediaSource_needs_searchController
      [OF example_downloads_controller_reachable, of example_controller 5 10 10]
  by (simp add: example_controller_def example_downloads_controller_def)

subsection \<open>Controller::updateSearchControllers\<close>

lemma queryNext_fields:
  "Controller_queryNext s c q = Inr c' \<Longrightarrow>
     searchFieldController c' = searchFieldController c
     \<and> seachEnabledByContent c' = seachEnabledByContent c"
  by (auto simp: Controller_queryNext_def split: sum.splits option.splits)

lemma setupSearchField_field:
  assumes "Controller_setupSearchField s hasSearch c memento = Inr c'"
  shows "(searchFieldController c' \<noteq> None) = hasSearch
    \<and> map_option SearchFieldController.query (searchFieldController c')
        = (if hasSearch then Some (searchFieldQuery memento) else None)
    \<and> (if hasSearch
        then seachEnabledByContent c' = ContentMemento.searchEnabledByContent memento
        else seachEnabledByContent c' = seachEnabledByContent c)"
  using assms
  by (auto simp: setupSearchField_unfold Let_def SearchFieldController_new_def
      split: if_splits sum.splits dest!: queryNext_fields)

lemma updateSearchControllers_blocks:
  "Controller_updateSearchControllers allowSearch s c memento =
     (case Controller_restoreSearchController (Section.type (section' c) = Media) c memento of
        Inl e \<Rightarrow> Inl e
      | Inr c1 \<Rightarrow>
          Controller_setupSearchField s (Section_supportsSearch allowSearch (section' c))
            c1 memento)"
proof (cases "Section.type (section' c) = Media")
  case True
  then show ?thesis
    by (simp add: Controller_updateSearchControllers_def Let_def Section_supportsSearch_def
        split: sum.splits)
next
  case False
  then show ?thesis
    by (simp add: Controller_updateSearchControllers_def Let_def Section_supportsSearch_def
        split: sum.splits)
qed

lemma updateSearchControllers_field:
  assumes "Controller_updateSearchControllers allowSearch s c memento = Inr c'"
  shows "(searchFieldController c' \<noteq> None) = Section_supportsSearch allowSearch (section' c)
    \<and> map_option SearchFieldController.query (searchFieldController c')
        = (if Section_supportsSearch allowSearch (section' c)
           then Some (searchFieldQuery memento) else None)
    \<and> (if Section_supportsSearch allowSearch (section' c)
        then seachEnabledByContent c' = ContentMemento.searchEnabledByContent memento
        else seachEnabledByContent c' = seachEnabledByContent c)"
proof -
  let ?isMedia = "Section.type (section' c) = Media"
  from assms obtain c1 where
    c1: "Controller_restoreSearchController ?isMedia c memento = Inr c1" and
    c': "Controller_setupSearchField s (Section_supportsSearch allowSearch (section' c)) c1 memento = Inr c'"
    by (auto simp: updateSearchControllers_blocks split: sum.splits)
  have "seachEnabledByContent c1 = seachEnabledByContent c"
    using c1 by (auto simp: Controller_restoreSearchController_def split: if_splits option.splits)
  with setupSearchField_field [OF c'] show ?thesis
    by simp
qed

lemma updateSearchControllers_Downloads:
  assumes "Section.type (section' c) = Downloads"
  shows "Controller_updateSearchControllers allowSearch s c memento
    = Inr (c\<lparr>searchController := None, searchFieldController := None\<rparr>)"
  using assms
  by (simp add: Controller_updateSearchControllers_def Controller_restoreSearchController_def
      setupSearchField_unfold Let_def)

lemma queryNext_completes:
  "(\<exists>c'. Controller_queryNext s c q = Inr c')
     = (Key_peer (key c) \<noteq> None \<and> searchController c \<noteq> None)"
  by (auto simp: Controller_queryNext_def Controller_produceSearchQuery_def
      split: option.splits sum.splits)

lemma updateSearchControllers_completes:
  "(\<exists>c'. Controller_updateSearchControllers allowSearch s c memento = Inr c')
     = (Section.type (section' c) = Media \<longrightarrow>
          mediaSearchState memento \<noteq> None
          \<and> (allowSearch (Section.mediaType (section' c)) \<longrightarrow> Key_peer (key c) \<noteq> None))"
proof (cases "Section.type (section' c) = Media")
  case False
  then show ?thesis
    by (simp add: updateSearchControllers_blocks Controller_restoreSearchController_def
        setupSearchField_unfold Let_def)
next
  case True
  show ?thesis
  proof (cases "mediaSearchState memento")
    case None
    with True show ?thesis
      by (simp add: updateSearchControllers_blocks Controller_restoreSearchController_def)
  next
    case (Some st)
    let ?c1 = "c\<lparr>searchController := Some (restoreState DelayedSearchController_new st)\<rparr>"
    let ?f = "\<lparr>SearchFieldController.query = searchFieldQuery memento, forwards = True\<rparr>"
    have q: "(\<exists>c'. Controller_queryNext s (?c1\<lparr>searchFieldController := Some ?f\<rparr>)
                 (searchFieldQuery memento) = Inr c') = (Key_peer (key c) \<noteq> None)"
      by (simp add: queryNext_completes)
    show ?thesis
    proof (cases "allowSearch (Section.mediaType (section' c))")
      case False
      with True Some show ?thesis
        by (simp add: updateSearchControllers_blocks Controller_restoreSearchController_def
            setupSearchField_unfold Let_def Section_supportsSearch_def)
    next
      case allow: True
      with True Some q show ?thesis
        by (auto simp: updateSearchControllers_blocks Controller_restoreSearchController_def
            setupSearchField_unfold Let_def Section_supportsSearch_def
            SearchFieldController_new_def split: sum.splits)
    qed
  qed
qed

lemma updateSearchControllers_members:
  assumes "Section.type (section' c) = CommonGroups \<or> Section.type (section' c) = Members
      \<or> Section.type (section' c) = Profile"
  shows "Controller_updateSearchControllers allowSearch s c memento
    = Inr (c\<lparr>searchController := None,
             searchFieldController :=
               Some \<lparr>SearchFieldController.query = searchFieldQuery memento, forwards = False\<rparr>,
             seachEnabledByContent := ContentMemento.searchEnabledByContent memento,
             searchStartsFocused := ContentMemento.searchStartsFocused memento\<rparr>)"
  using assms
  by (auto simp: updateSearchControllers_blocks Controller_restoreSearchController_def
      setupSearchField_unfold Section_supportsSearch_def)

lemma updateSearchControllers_media_plain:
  assumes "Section.type (section' c) = Media"
    and "mediaSearchState memento = Some st"
    and "\<not> allowSearch (Section.mediaType (section' c))"
  shows "Controller_updateSearchControllers allowSearch s c memento
    = Inr (c\<lparr>searchController := Some (restoreState DelayedSearchController_new st),
             searchFieldController := None\<rparr>)"
  using assms
  by (simp add: updateSearchControllers_blocks Controller_restoreSearchController_def
      setupSearchField_unfold Section_supportsSearch_def)

lemma updateSearchControllers_media_search:
  assumes "Section.type (section' c) = Media"
    and "mediaSearchState memento = Some st"
    and "allowSearch (Section.mediaType (section' c))"
    and "Key_peer (key c) = Some p"
  shows "Controller_updateSearchControllers allowSearch s c memento
    = Inr (c\<lparr>searchController :=
               Some (setQuery (restoreState DelayedSearchController_new st)
                 \<lparr>SearchQuery.type = Section.mediaType (section' c),
                  peerId = id' (peerData s p),
                  migratedPeerId =
                    (case migrated c of Some m \<Rightarrow> id' (peerData s m) | None \<Rightarrow> 0),
                  query = searchFieldQuery memento\<rparr>),
             searchFieldController :=
               Some \<lparr>SearchFieldController.query = searchFieldQuery memento, forwards = True\<rparr>,
             seachEnabledByContent := ContentMemento.searchEnabledByContent memento,
             searchStartsFocused := ContentMemento.searchStartsFocused memento\<rparr>)"
  using assms
  by (simp add: updateSearchControllers_blocks Controller_restoreSearchController_def
      setupSearchField_unfold Section_supportsSearch_def Controller_queryNext_def
      Controller_produceSearchQuery_def SearchQuery_default_def)

text \<open>
  C3. updateSearchControllers runs to its end exactly when, for a Media section, the
  snapshot is a Media-kind snapshot and the Key resolves to a peer if the media type
  allows search; for every other section it always does. After it has run, the search
  controller exists exactly when the section type is Media, and the field controller
  exists exactly when the section has media search (Media with a media type that allows
  search), common-groups search (CommonGroups) or members search (Members or Profile);
  the field controller's text is the snapshot's saved query string. Whatever delegates
  the controller had before: for a Downloads section both are reset; for CommonGroups,
  Members and Profile the search controller is reset and a field controller with the
  saved text is created; for Media the search controller is created and restored from
  the snapshot, with a field controller forwarding to it when the media type allows
  search and with none otherwise.
\<close>

theorem updateSearchControllers_delegates:
  "(\<exists>c'. Controller_updateSearchControllers allowSearch s c memento = Inr c')
      = (Section.type (section' c) = Media \<longrightarrow>
           mediaSearchState memento \<noteq> None
           \<and> (allowSearch (Section.mediaType (section' c)) \<longrightarrow> Key_peer (key c) \<noteq> None))
   \<and> (\<forall>c'. Controller_updateSearchControllers allowSearch s c memento = Inr c' \<longrightarrow>
         (searchController c' \<noteq> None) = (Section.type (section' c) = Media)
         \<and> (searchFieldController c' \<noteq> None)
             = (Section.type (section' c) = Media
                  \<and> allowSearch (Section.mediaType (section' c))
                \<or> Section.type (section' c) = CommonGroups
                \<or> Section.type (section' c) = Members
                \<or> Section.type (section' c) = Profile)
         \<and> (\<forall>field. searchFieldController c' = Some field
               \<longrightarrow> SearchFieldController.query field = searchFieldQuery memento))
   \<and> (Section.type (section' c) = Downloads \<longrightarrow>
         Controller_updateSearchControllers allowSearch s c memento
           = Inr (c\<lparr>searchController := None, searchFieldController := None\<rparr>))
   \<and> (Section.type (section' c) = CommonGroups \<or> Section.type (section' c) = Members
        \<or> Section.type (section' c) = Profile \<longrightarrow>
         Controller_updateSearchControllers allowSearch s c memento
           = Inr (c\<lparr>searchController := None,
                    searchFieldController :=
                      Some \<lparr>SearchFieldController.query = searchFieldQuery memento,
                            forwards = False\<rparr>,
                    seachEnabledByContent := ContentMemento.searchEnabledByContent memento,
                    searchStartsFocused := ContentMemento.searchStartsFocused memento\<rparr>))
   \<and> (Section.type (section' c) = Media \<and> mediaSearchState memento = Some st
        \<and> \<not> allowSearch (Section.mediaType (section' c)) \<longrightarrow>
         Controller_updateSearchControllers allowSearch s c memento
           = Inr (c\<lparr>searchController := Some (restoreState DelayedSearchController_new st),
                    searchFieldController := None\<rparr>))
   \<and> (Section.type (section' c) = Media \<and> mediaSearchState memento = Some st
        \<and> allowSearch (Section.mediaType (section' c)) \<and> Key_peer (key c) = Some p \<longrightarrow>
         Controller_updateSearchControllers allowSearch s c memento
           = Inr (c\<lparr>searchController :=
                      Some (setQuery (restoreState DelayedSearchController_new st)
                        \<lparr>SearchQuery.type = Section.mediaType (section' c),
                         peerId = id' (peerData s p),
                         migratedPeerId =
                           (case migrated c of Some m \<Rightarrow> id' (peerData s m) | None \<Rightarrow> 0),
                         query = searchFieldQuery memento\<rparr>),
                    searchFieldController :=
                      Some \<lparr>SearchFieldController.query = searchFieldQuery memento,
                            forwards = True\<rparr>,
                    seachEnabledByContent := ContentMemento.searchEnabledByContent memento,
                    searchStartsFocused := ContentMemento.searchStartsFocused memento\<rparr>))"
proof -
  have delegates: "(searchController c' \<noteq> None) = (Section.type (section' c) = Media)
         \<and> (searchFieldController c' \<noteq> None)
             = (Section.type (section' c) = Media
                  \<and> allowSearch (Section.mediaType (section' c))
                \<or> Section.type (section' c) = CommonGroups
                \<or> Section.type (section' c) = Members
                \<or> Section.type (section' c) = Profile)
         \<and> (\<forall>field. searchFieldController c' = Some field
               \<longrightarrow> SearchFieldController.query field = searchFieldQuery memento)"
    if run: "Controller_updateSearchControllers allowSearch s c memento = Inr c'" for c'
  proof -
    note field = updateSearchControllers_field [OF run]
    have "(searchController c' \<noteq> None) = (Section.type (section' c) = Media)"
      using updateSearchControllers_searchController [OF run] by simp
    moreover have "(searchFieldController c' \<noteq> None)
        = (Section.type (section' c) = Media \<and> allowSearch (Section.mediaType (section' c))
           \<or> Section.type (section' c) = CommonGroups
           \<or> Section.type (section' c) = Members \<or> Section.type (section' c) = Profile)"
      using field by (simp add: Section_supportsSearch_def)
    moreover have "SearchFieldController.query field = searchFieldQuery memento"
      if "searchFieldController c' = Some field" for field
      using field that by (auto split: if_splits)
    ultimately show ?thesis
      by blast
  qed
  have completes: "(\<exists>c'. Controller_updateSearchControllers allowSearch s c memento = Inr c')
      = (Section.type (section' c) = Media \<longrightarrow>
           mediaSearchState memento \<noteq> None
           \<and> (allowSearch (Section.mediaType (section' c)) \<longrightarrow> Key_peer (key c) \<noteq> None))"
    by (rule updateSearchControllers_completes)
  have always: "\<forall>c'. Controller_updateSearchControllers allowSearch s c memento = Inr c' \<longrightarrow>
         (searchController c' \<noteq> None) = (Section.type (section' c) = Media)
         \<and> (searchFieldController c' \<noteq> None)
             = (Section.type (section' c) = Media
                  \<and> allowSearch (Section.mediaType (section' c))
                \<or> Section.type (section' c) = CommonGroups
                \<or> Section.type (section' c) = Members
                \<or> Section.type (section' c) = Profile)
         \<and> (\<forall>field. searchFieldController c' = Some field
               \<longrightarrow> SearchFieldController.query field = searchFieldQuery memento)"
    using delegates by (intro allI impI)
  have downloads: "Section.type (section' c) = Downloads \<longrightarrow>
         Controller_updateSearchControllers allowSearch s c memento
           = Inr (c\<lparr>searchController := None, searchFieldController := None\<rparr>)"
    by (intro impI) (erule updateSearchControllers_Downloads)
  have members: "Section.type (section' c) = CommonGroups \<or> Section.type (section' c) = Members
        \<or> Section.type (section' c) = Profile \<longrightarrow>
         Controller_updateSearchControllers allowSearch s c memento
           = Inr (c\<lparr>searchController := None,
                    searchFieldController :=
                      Some \<lparr>SearchFieldController.query = searchFieldQuery memento,
                            forwards = False\<rparr>,
                    seachEnabledByContent := ContentMemento.searchEnabledByContent memento,
                    searchStartsFocused := ContentMemento.searchStartsFocused memento\<rparr>)"
    by (intro impI) (erule updateSearchControllers_members)
  have plain: "Section.type (section' c) = Media \<and> mediaSearchState memento = Some st
        \<and> \<not> allowSearch (Section.mediaType (section' c)) \<longrightarrow>
         Controller_updateSearchControllers allowSearch s c memento
           = Inr (c\<lparr>searchController := Some (restoreState DelayedSearchController_new st),
                    searchFieldController := None\<rparr>)"
    by (intro impI, elim conjE) (rule updateSearchControllers_media_plain)
  have search: "Section.type (section' c) = Media \<and> mediaSearchState memento = Some st
        \<and> allowSearch (Section.mediaType (section' c)) \<and> Key_peer (key c) = Some p \<longrightarrow>
         Controller_updateSearchControllers allowSearch s c memento
           = Inr (c\<lparr>searchController :=
                      Some (setQuery (restoreState DelayedSearchController_new st)
                        \<lparr>SearchQuery.type = Section.mediaType (section' c),
                         peerId = id' (peerData s p),
                         migratedPeerId =
                           (case migrated c of Some m \<Rightarrow> id' (peerData s m) | None \<Rightarrow> 0),
                         query = searchFieldQuery memento\<rparr>),
                    searchFieldController :=
                      Some \<lparr>SearchFieldController.query = searchFieldQuery memento,
                            forwards = True\<rparr>,
                    seachEnabledByContent := ContentMemento.searchEnabledByContent memento,
                    searchStartsFocused := ContentMemento.searchStartsFocused memento\<rparr>)"
    by (intro impI, elim conjE) (rule updateSearchControllers_media_search)
  show ?thesis
    by (rule conjI [OF completes conjI [OF always conjI [OF downloads
          conjI [OF members conjI [OF plain search]]]]])
qed

theorem updateSearchControllers_delegates_witness:
  "Controller_updateSearchControllers example_allowSearch example_session
      (example_controller\<lparr>searchController := None, searchFieldController := None,
         seachEnabledByContent := False\<rparr>)
      example_memento = Inr example_controller
   \<and> searchController example_controller
       = Some \<lparr>SavedState.query =
                \<lparr>SearchQuery.type = MediaKind 4, peerId = 1, migratedPeerId = 0,
                 query = ''cats''\<rparr>,
              lists = []\<rparr>
   \<and> searchFieldController example_controller
       = Some \<lparr>SearchFieldController.query = ''cats'', forwards = True\<rparr>
   \<and> Controller_updateSearchControllers example_allowSearch example_session
        (example_controller\<lparr>section' := \<lparr>Section.type = Downloads, mediaType = kCount\<rparr>\<rparr>)
        example_downloads_memento
       = Inr (example_controller
           \<lparr>section' := \<lparr>Section.type = Downloads, mediaType = kCount\<rparr>,
            searchController := None, searchFieldController := None\<rparr>)
   \<and> Controller_updateSearchControllers example_allowSearch example_session
        (example_downloads_controller
           \<lparr>section' := \<lparr>Section.type = CommonGroups, mediaType = kCount\<rparr>\<rparr>)
        example_downloads_memento
       = Inr (example_downloads_controller
           \<lparr>section' := \<lparr>Section.type = CommonGroups, mediaType = kCount\<rparr>,
            searchFieldController :=
              Some \<lparr>SearchFieldController.query = ''a'', forwards = False\<rparr>,
            seachEnabledByContent := True\<rparr>)"
proof -
  let ?st = "\<lparr>SavedState.query = SearchQuery_default, lists = []\<rparr>"
  let ?c0 = "example_controller\<lparr>searchController := None, searchFieldController := None,
         seachEnabledByContent := False\<rparr>"
  let ?cD = "example_controller\<lparr>section' := \<lparr>Section.type = Downloads, mediaType = kCount\<rparr>\<rparr>"
  let ?cG = "example_downloads_controller
           \<lparr>section' := \<lparr>Section.type = CommonGroups, mediaType = kCount\<rparr>\<rparr>"
  have media: "Section.type (section' ?c0) = Media \<and> mediaSearchState example_memento = Some ?st
      \<and> example_allowSearch (Section.mediaType (section' ?c0)) \<and> Key_peer (key ?c0) = Some 1"
    by (simp add: example_controller_def example_memento_def example_allowSearch_def)
  have downloads: "Section.type (section' ?cD) = Downloads"
    by simp
  have groups: "Section.type (section' ?cG) = CommonGroups"
    by simp
  note created = updateSearchControllers_delegates
      [where c = ?c0 and memento = example_memento and allowSearch = example_allowSearch
         and s = example_session and st = ?st and p = 1,
       THEN conjunct2, THEN conjunct2, THEN conjunct2, THEN conjunct2, THEN conjunct2,
       THEN mp, OF media]
  note released = updateSearchControllers_delegates
      [where c = ?cD and memento = example_downloads_memento
         and allowSearch = example_allowSearch and s = example_session,
       THEN conjunct2, THEN conjunct2, THEN conjunct1, THEN mp, OF downloads]
  note field = updateSearchControllers_delegates
      [where c = ?cG and memento = example_downloads_memento
         and allowSearch = example_allowSearch and s = example_session,
       THEN conjunct2, THEN conjunct2, THEN conjunct2, THEN conjunct1, THEN mp,
       OF disjI1 [OF groups]]
  have c1: "Controller_updateSearchControllers example_allowSearch example_session ?c0
      example_memento = Inr example_controller"
    unfolding created
    by (simp add: example_controller_def example_memento_def example_session_def
        restoreState_def setQuery_def DelayedSearchController_new_def)
  have c2: "Controller_updateSearchControllers example_allowSearch example_session ?cD
      example_downloads_memento
      = Inr (example_controller
           \<lparr>section' := \<lparr>Section.type = Downloads, mediaType = kCount\<rparr>,
            searchController := None, searchFieldController := None\<rparr>)"
    unfolding released by simp
  have c3: "Controller_updateSearchControllers example_allowSearch example_session ?cG
      example_downloads_memento
      = Inr (example_downloads_controller
           \<lparr>section' := \<lparr>Section.type = CommonGroups, mediaType = kCount\<rparr>,
            searchFieldController :=
              Some \<lparr>SearchFieldController.query = ''a'', forwards = False\<rparr>,
            seachEnabledByContent := True\<rparr>)"
    unfolding field
    by (simp add: example_downloads_controller_def example_downloads_memento_def)
  have d: "searchController example_controller
       = Some \<lparr>SavedState.query =
                \<lparr>SearchQuery.type = MediaKind 4, peerId = 1, migratedPeerId = 0,
                 query = ''cats''\<rparr>,
              lists = []\<rparr>
   \<and> searchFieldController example_controller
       = Some \<lparr>SearchFieldController.query = ''cats'', forwards = True\<rparr>"
    by (simp add: example_controller_def)
  from c1 c2 c3 d show ?thesis
    by simp
qed

subsection \<open>Saving and restoring the search state\<close>

lemma saveSearchField_fields:
  "searchFieldQuery (Controller_saveSearchField c memento)
     = (case searchFieldController c of
          Some field \<Rightarrow> SearchFieldController.query field
        | None \<Rightarrow> searchFieldQuery memento)
   \<and> searchEnabledByContent (Controller_saveSearchField c memento)
     = (case searchFieldController c of
          Some field \<Rightarrow> seachEnabledByContent c
        | None \<Rightarrow> searchEnabledByContent memento)
   \<and> mediaSearchState (Controller_saveSearchField c memento) = mediaSearchState memento"
  by (simp add: Controller_saveSearchField_def split: option.splits)

lemma saveSearchController_fields:
  "Controller_saveSearchController c memento = Inr memento' \<Longrightarrow>
     searchFieldQuery memento' = searchFieldQuery memento
     \<and> searchEnabledByContent memento' = searchEnabledByContent memento"
  by (auto simp: Controller_saveSearchController_def split: option.splits)

lemma saveSearchState_fields:
  assumes "Controller_saveSearchState c memento = Inr memento'"
  shows "searchFieldQuery memento'
     = (case searchFieldController c of
          Some field \<Rightarrow> SearchFieldController.query field
        | None \<Rightarrow> searchFieldQuery memento)
   \<and> searchEnabledByContent memento'
     = (case searchFieldController c of
          Some field \<Rightarrow> seachEnabledByContent c
        | None \<Rightarrow> searchEnabledByContent memento)"
  using assms saveSearchController_fields [of c "Controller_saveSearchField c memento" memento']
    saveSearchField_fields [of c memento]
  by (simp add: Controller_saveSearchState_def)

lemma saveSearchState_completes:
  "(\<exists>memento'. Controller_saveSearchState c memento = Inr memento')
     = (searchController c = None \<or> mediaSearchState memento \<noteq> None)"
  using saveSearchField_fields [of c memento]
  by (auto simp: Controller_saveSearchState_def Controller_saveSearchController_def
      split: option.splits)

text \<open>
  C4, as stated, fails for a section without a query field: updateSearchControllers on a
  Downloads section with a snapshot whose saved query is "a" and whose flag is set,
  followed by saveSearchState into a snapshot with the empty query and the flag unset,
  leaves the second snapshot as it was.
\<close>

theorem search_state_roundtrip_counterexample:
  "Controller_updateSearchControllers example_allowSearch example_session
      example_downloads_controller example_downloads_memento = Inr example_downloads_controller
   \<and> Controller_saveSearchState example_downloads_controller
        (example_downloads_memento\<lparr>searchFieldQuery := [], searchEnabledByContent := False\<rparr>)
      = Inr (example_downloads_memento\<lparr>searchFieldQuery := [], searchEnabledByContent := False\<rparr>)
   \<and> searchFieldQuery
        (example_downloads_memento\<lparr>searchFieldQuery := [], searchEnabledByContent := False\<rparr>)
      \<noteq> searchFieldQuery example_downloads_memento
   \<and> searchEnabledByContent
        (example_downloads_memento\<lparr>searchFieldQuery := [], searchEnabledByContent := False\<rparr>)
      \<noteq> searchEnabledByContent example_downloads_memento"
  by (simp add: example_unfold Controller_saveSearchState_def Controller_saveSearchField_def
      Controller_saveSearchController_def)

text \<open>
  C4, amended. updateSearchControllers(snapshot) followed at once by
  saveSearchState(snapshot2) completes whenever, for a Media section, both snapshots are
  Media-kind and the Key resolves to a peer if the media type allows search. When the
  section supports search, snapshot2 then holds the searchFieldQuery and the
  searchEnabledByContent of snapshot; when it does not, both fields of snapshot2 are
  left as they were.
\<close>

theorem search_state_roundtrip:
  assumes "Section.type (section' c) = Media \<longrightarrow>
             mediaSearchState memento \<noteq> None \<and> mediaSearchState memento' \<noteq> None
             \<and> (allowSearch (Section.mediaType (section' c)) \<longrightarrow> Key_peer (key c) \<noteq> None)"
  shows "\<exists>c' saved'.
      Controller_updateSearchControllers allowSearch s c memento = Inr c'
    \<and> Controller_saveSearchState c' memento' = Inr saved'
    \<and> searchFieldQuery saved'
        = (if Section_supportsSearch allowSearch (section' c)
           then searchFieldQuery memento else searchFieldQuery memento')
    \<and> searchEnabledByContent saved'
        = (if Section_supportsSearch allowSearch (section' c)
           then searchEnabledByContent memento else searchEnabledByContent memento')"
proof -
  from assms obtain c' where
    c': "Controller_updateSearchControllers allowSearch s c memento = Inr c'"
    using updateSearchControllers_completes [of allowSearch s c memento] by blast
  have "searchController c' = None \<or> mediaSearchState memento' \<noteq> None"
    using updateSearchControllers_searchController [OF c'] assms by auto
  then obtain saved' where
    m2: "Controller_saveSearchState c' memento' = Inr saved'"
    using saveSearchState_completes [of c' memento'] by blast
  note field = updateSearchControllers_field [OF c']
  note fields = saveSearchState_fields [OF m2]
  show ?thesis
  proof (cases "Section_supportsSearch allowSearch (section' c)")
    case True
    with field obtain f where
      f: "searchFieldController c' = Some f"
         "SearchFieldController.query f = searchFieldQuery memento"
      by auto
    with True field fields c' m2 show ?thesis
      by simp
  next
    case False
    with field have "searchFieldController c' = None"
      by simp
    with False fields c' m2 show ?thesis
      by simp
  qed
qed

theorem search_state_roundtrip_witness:
  "Section.type (section' example_controller) = Media
   \<and> mediaSearchState example_memento \<noteq> None
   \<and> Key_peer (key example_controller) \<noteq> None
   \<and> Section_supportsSearch example_allowSearch (section' example_controller)
   \<and> (\<exists>c' saved'.
        Controller_updateSearchControllers example_allowSearch example_session
          example_controller example_memento = Inr c'
      \<and> Controller_saveSearchState c'
          (example_memento\<lparr>searchFieldQuery := [], searchEnabledByContent := False\<rparr>)
        = Inr saved'
      \<and> searchFieldQuery saved' = ''cats''
      \<and> searchEnabledByContent saved' = True)"
proof -
  have pre: "Section.type (section' example_controller) = Media \<longrightarrow>
      mediaSearchState example_memento \<noteq> None
      \<and> mediaSearchState
          (example_memento\<lparr>searchFieldQuery := [], searchEnabledByContent := False\<rparr>) \<noteq> None
      \<and> (example_allowSearch (Section.mediaType (section' example_controller))
           \<longrightarrow> Key_peer (key example_controller) \<noteq> None)"
    by (simp add: example_controller_def example_memento_def)
  have sup: "Section_supportsSearch example_allowSearch (section' example_controller)"
    by (simp add: Section_supportsSearch_def example_controller_def example_allowSearch_def)
  from sup search_state_roundtrip
      [where c = example_controller and memento = example_memento
         and memento' = "example_memento\<lparr>searchFieldQuery := [], searchEnabledByContent := False\<rparr>"
         and allowSearch = example_allowSearch and s = example_session, OF pre]
  show ?thesis
    by (simp add: example_controller_def example_memento_def)
qed

subsection \<open>Controller::validateMementoPeer\<close>

text \<open>
  C8. validateMementoPeer is true exactly when the snapshot's peer, migrated-peer id and
  settings owner equal the controller's peer, its migrated-peer id (the id of the
  migrated peer, or 0) and its settings owner; a mismatch in any one of the three makes
  it false.
\<close>

theorem validateMementoPeer_iff:
  "Controller_validateMementoPeer s c memento
     = (Key_peer (ContentMemento.key memento) = Key_peer (key c)
        \<and> ContentMemento.migratedPeerId memento
            = (case migrated c of None \<Rightarrow> 0 | Some p \<Rightarrow> id' (peerData s p))
        \<and> Key_settingsSelf (ContentMemento.key memento) = Key_settingsSelf (key c))
   \<and> (ContentMemento_peer memento \<noteq> AbstractController_peer c
        \<longrightarrow> \<not> Controller_validateMementoPeer s c memento)
   \<and> (ContentMemento.migratedPeerId memento \<noteq> AbstractController_migratedPeerId s c
        \<longrightarrow> \<not> Controller_validateMementoPeer s c memento)
   \<and> (ContentMemento_settingsSelf memento \<noteq> AbstractController_settingsSelf c
        \<longrightarrow> \<not> Controller_validateMementoPeer s c memento)"
  by (auto simp: Controller_validateMementoPeer_def ContentMemento_peer_def
      ContentMemento_settingsSelf_def AbstractController_peer_def
      AbstractController_settingsSelf_def AbstractController_migratedPeerId_def
      split: option.splits)

theorem validateMementoPeer_witness:
  "Controller_validateMementoPeer example_session example_controller example_memento
   \<and> ContentMemento_peer (example_memento\<lparr>ContentMemento.key := Key_Peer 2\<rparr>)
       \<noteq> AbstractController_peer example_controller
   \<and> \<not> Controller_validateMementoPeer example_session example_controller
         (example_memento\<lparr>ContentMemento.key := Key_Peer 2\<rparr>)
   \<and> ContentMemento.migratedPeerId (example_memento\<lparr>ContentMemento.migratedPeerId := 2\<rparr>)
       \<noteq> AbstractController_migratedPeerId example_session example_controller
   \<and> \<not> Controller_validateMementoPeer example_session example_controller
         (example_memento\<lparr>ContentMemento.migratedPeerId := 2\<rparr>)
   \<and> ContentMemento_settingsSelf example_downloads_memento
       \<noteq> AbstractController_settingsSelf
           (example_downloads_controller\<lparr>key := Key_Settings \<lparr>self = 3\<rparr>\<rparr>)
   \<and> \<not> Controller_validateMementoPeer example_session
         (example_downloads_controller\<lparr>key := Key_Settings \<lparr>self = 3\<rparr>\<rparr>)
         example_downloads_memento"
proof -
  have p: "ContentMemento_peer (example_memento\<lparr>ContentMemento.key := Key_Peer 2\<rparr>)
       \<noteq> AbstractController_peer example_controller"
    by (simp add: ContentMemento_peer_def AbstractController_peer_def example_memento_def
        example_controller_def)
  have m: "ContentMemento.migratedPeerId (example_memento\<lparr>ContentMemento.migratedPeerId := 2\<rparr>)
       \<noteq> AbstractController_migratedPeerId example_session example_controller"
    by (simp add: AbstractController_migratedPeerId_def example_controller_def)
  have u: "ContentMemento_settingsSelf example_downloads_memento
       \<noteq> AbstractController_settingsSelf
           (example_downloads_controller\<lparr>key := Key_Settings \<lparr>self = 3\<rparr>\<rparr>)"
    by (simp add: ContentMemento_settingsSelf_def AbstractController_settingsSelf_def
        example_downloads_memento_def)
  have v: "Controller_validateMementoPeer example_session example_controller example_memento"
    using validateMementoPeer_iff
      [where s = example_session and c = example_controller and memento = example_memento]
    by (simp add: example_controller_def example_memento_def)
  from p m u v
    validateMementoPeer_iff [where s = example_session and c = example_controller
      and memento = "example_memento\<lparr>ContentMemento.key := Key_Peer 2\<rparr>"]
    validateMementoPeer_iff [where s = example_session and c = example_controller
      and memento = "example_memento\<lparr>ContentMemento.migratedPeerId := 2\<rparr>"]
    validateMementoPeer_iff [where s = example_session and memento = example_downloads_memento
      and c = "example_downloads_controller\<lparr>key := Key_Settings \<lparr>self = 3\<rparr>\<rparr>"]
  show ?thesis
    by blast
qed

subsection \<open>The Media-kind assertions\<close>

lemma queryNext_not_AssertFailed:
  "searchController c \<noteq> None \<Longrightarrow> Controller_queryNext s c q \<noteq> Inl AssertFailed"
  by (auto simp: Controller_queryNext_def Controller_produceSearchQuery_def
      split: option.splits sum.splits)

lemma setupSearchField_not_AssertFailed:
  "Controller_setupSearchField s hasSearch c memento \<noteq> Inl AssertFailed"
proof (cases "hasSearch \<and> searchController c \<noteq> None")
  case True
  let ?c = "c\<lparr>searchFieldController :=
               Some \<lparr>SearchFieldController.query = searchFieldQuery memento,
                     forwards = True\<rparr>\<rparr>"
  from True have "searchController ?c \<noteq> None"
    by simp
  from queryNext_not_AssertFailed [OF this, of s "searchFieldQuery memento"] True
  show ?thesis
    by (auto simp: setupSearchField_unfold Let_def split: sum.splits)
next
  case False
  then show ?thesis
    by (auto simp: setupSearchField_unfold Let_def)
qed

lemma updateSearchControllers_AssertFailed_iff:
  "(Controller_updateSearchControllers allowSearch s c memento = Inl AssertFailed)
     = (Section.type (section' c) = Media \<and> mediaSearchState memento = None)"
proof (cases "Controller_restoreSearchController (Section.type (section' c) = Media) c memento")
  case (Inl e)
  then show ?thesis
    by (auto simp: updateSearchControllers_blocks Controller_restoreSearchController_def
        split: if_splits option.splits)
next
  case (Inr c1)
  then have "\<not> (Section.type (section' c) = Media \<and> mediaSearchState memento = None)"
    by (auto simp: Controller_restoreSearchController_def split: if_splits option.splits)
  with Inr setupSearchField_not_AssertFailed show ?thesis
    by (simp add: updateSearchControllers_blocks)
qed

lemma saveSearchState_AssertFailed_iff:
  "(Controller_saveSearchState c memento = Inl e)
     = (e = AssertFailed \<and> searchController c \<noteq> None \<and> mediaSearchState memento = None)"
  using saveSearchField_fields [of c memento]
  by (auto simp: Controller_saveSearchState_def Controller_saveSearchController_def
      split: option.splits)

text \<open>
  C9. Restoring the search state (the first block of updateSearchControllers, entered
  for a Media section) and with it updateSearchControllers, and saving the search state
  when a search controller exists, fail the assertion exactly when the snapshot is not a
  Media-kind snapshot; the failure is the fatal \<open>AssertFailed\<close>. With a Media-kind
  snapshot the restore gives the controller with the restored search controller, and
  saveSearchState returns the snapshot with the saved state.
\<close>

theorem search_state_type_mismatch_is_fatal:
  "(Controller_restoreSearchController True c memento = Inl AssertFailed)
      = (mediaSearchState memento = None)
   \<and> (Controller_updateSearchControllers allowSearch s c memento = Inl AssertFailed)
      = (Section.type (section' c) = Media \<and> mediaSearchState memento = None)
   \<and> (Controller_saveSearchState c memento = Inl AssertFailed)
      = (searchController c \<noteq> None \<and> mediaSearchState memento = None)
   \<and> (mediaSearchState memento = Some st \<longrightarrow>
        Controller_restoreSearchController True c memento
          = Inr (c\<lparr>searchController := Some (restoreState DelayedSearchController_new st)\<rparr>)
        \<and> Controller_saveSearchState c memento
          = Inr ((Controller_saveSearchField c memento)
                   \<lparr>mediaSearchState :=
                      (case searchController c of
                         None \<Rightarrow> Some st
                       | Some d \<Rightarrow> Some (saveState d))\<rparr>))"
proof -
  have "(Controller_restoreSearchController True c memento = Inl AssertFailed)
      = (mediaSearchState memento = None)"
    by (simp add: Controller_restoreSearchController_def split: option.splits)
  moreover have "(Controller_saveSearchState c memento = Inl AssertFailed)
      = (searchController c \<noteq> None \<and> mediaSearchState memento = None)"
    by (simp add: saveSearchState_AssertFailed_iff)
  moreover have "Controller_restoreSearchController True c memento
          = Inr (c\<lparr>searchController := Some (restoreState DelayedSearchController_new st)\<rparr>)"
    if "mediaSearchState memento = Some st"
    using that by (simp add: Controller_restoreSearchController_def)
  moreover have "Controller_saveSearchState c memento
          = Inr ((Controller_saveSearchField c memento)
                   \<lparr>mediaSearchState :=
                      (case searchController c of
                         None \<Rightarrow> Some st
                       | Some d \<Rightarrow> Some (saveState d))\<rparr>)"
    if st: "mediaSearchState memento = Some st"
  proof -
    have "mediaSearchState (Controller_saveSearchField c memento) = Some st"
      using saveSearchField_fields [of c memento] st by simp
    then show ?thesis
      by (cases "searchController c")
        (simp_all add: Controller_saveSearchState_def Controller_saveSearchController_def)
  qed
  ultimately show ?thesis
    using updateSearchControllers_AssertFailed_iff [of allowSearch s c memento] by blast
qed

theorem search_state_type_mismatch_witness:
  "mediaSearchState example_memento
     = Some \<lparr>SavedState.query = SearchQuery_default, lists = []\<rparr>
   \<and> Controller_restoreSearchController True example_controller example_memento
     = Inr (example_controller\<lparr>searchController :=
              Some \<lparr>SavedState.query = SearchQuery_default, lists = []\<rparr>\<rparr>)
   \<and> Controller_saveSearchState example_controller example_memento
     = Inr (example_memento\<lparr>mediaSearchState := searchController example_controller\<rparr>)
   \<and> Controller_updateSearchControllers example_allowSearch example_session example_controller
        example_downloads_memento = Inl AssertFailed
   \<and> Controller_saveSearchState example_controller example_downloads_memento
     = Inl AssertFailed"
proof -
  have st: "mediaSearchState example_memento
     = Some \<lparr>SavedState.query = SearchQuery_default, lists = []\<rparr>"
    by (simp add: example_memento_def)
  have f: "Controller_saveSearchField example_controller example_memento = example_memento"
    by (simp add: Controller_saveSearchField_def example_controller_def example_memento_def)
  have sc: "searchController example_controller \<noteq> None"
    by (simp add: example_controller_def)
  have md: "Section.type (section' example_controller) = Media"
    by (simp add: example_controller_def)
  have none: "mediaSearchState example_downloads_memento = None"
    by (simp add: example_downloads_memento_def)
  from
    search_state_type_mismatch_is_fatal [where c = example_controller
      and memento = example_memento and allowSearch = example_allowSearch
      and s = example_session and st = "\<lparr>SavedState.query = SearchQuery_default, lists = []\<rparr>"]
    search_state_type_mismatch_is_fatal [where c = example_controller
      and memento = example_downloads_memento and allowSearch = example_allowSearch
      and s = example_session and st = "\<lparr>SavedState.query = SearchQuery_default, lists = []\<rparr>"]
    st f sc md none
  show ?thesis
    by (auto simp: restoreState_def DelayedSearchController_new_def saveState_def)
qed

subsection \<open>Controller::setupMigrationViewer\<close>

text \<open>
  C1. For a controller whose Key resolves to a peer that is a chat or a channel and that
  has no migrated peer recorded, setupMigrationViewer subscribes to the peer's Migration
  flag. When a notification reaches a controller state holding that subscription and the
  peer then has a migration target, or its migration source differs from the controller's
  migrated peer, the handler posts one call to the event loop and the navigator has
  received nothing yet; the next iteration of the event loop delivers it: showSection on
  the parent window with a memento for the same peer and the controller's current
  section, way Backward, animation instant, activation background.
\<close>

theorem migration_notification_schedules_showSection:
  assumes peer: "Key_peer (key c) = Some p"
    and kind: "isChat (peerData s0 p) \<or> isChannel (peerData s0 p)"
    and nomig: "migrated c = None"
    and watching: "migrationViewer c2 = migrationViewer (fst (Controller_setupMigrationViewer s0 c l0))"
    and notified: "migrateTo (peerData s p) \<noteq> None \<or> migrateFrom (peerData s p) \<noteq> migrated c2"
  shows "migrationViewer (fst (Controller_setupMigrationViewer s0 c l0)) = Some p
    \<and> Controller_peerFlagsChanged s c2 p Migration l
        = InvokeQueued (widget c2)
            (showSection (parent c2) (Memento p (section' c2))
               \<lparr>way = Backward, animated = instant, activation = background\<rparr>) l
    \<and> shown (Controller_peerFlagsChanged s c2 p Migration l) = shown l
    \<and> queued (Controller_peerFlagsChanged s c2 p Migration l)
        = queued l @ [(widget c2,
            showSection (parent c2) (Memento p (section' c2))
              \<lparr>way = Backward, animated = instant, activation = background\<rparr>)]
    \<and> shown (EventLoop_process (Controller_peerFlagsChanged s c2 p Migration l))
        = shown l @ map snd (queued l)
          @ [showSection (parent c2) (Memento p (section' c2))
               \<lparr>way = Backward, animated = instant, activation = background\<rparr>]"
proof -
  have installed: "migrationViewer (fst (Controller_setupMigrationViewer s0 c l0)) = Some p"
    using peer kind nomig by (auto simp: Controller_setupMigrationViewer_def)
  with watching have "migrationViewer c2 = Some p"
    by simp
  with notified have fired: "Controller_peerFlagsChanged s c2 p Migration l
        = InvokeQueued (widget c2)
            (showSection (parent c2) (Memento p (section' c2))
               \<lparr>way = Backward, animated = instant, activation = background\<rparr>) l"
    by (auto simp: Controller_peerFlagsChanged_def Controller_peerFlagsNext_def Let_def)
  show ?thesis
    unfolding fired using installed
    by (simp add: InvokeQueued_def EventLoop_process_def)
qed

theorem migration_notification_witness:
  "Key_peer (key (example_controller\<lparr>migrationViewer := None\<rparr>)) = Some 1
   \<and> isChat (peerData example_session 1)
   \<and> migrated (example_controller\<lparr>migrationViewer := None\<rparr>) = None
   \<and> fst (Controller_setupMigrationViewer example_session
             (example_controller\<lparr>migrationViewer := None\<rparr>) \<lparr>queued = [], shown = []\<rparr>)
       = example_controller
   \<and> migrateTo (peerData example_session_migrated 1) \<noteq> None
   \<and> Controller_peerFlagsChanged example_session_migrated example_controller 1 Migration
        \<lparr>queued = [], shown = []\<rparr>
       = \<lparr>queued = [(10, showSection 20
              (Memento 1 \<lparr>Section.type = Media, mediaType = MediaKind 4\<rparr>)
              \<lparr>way = Backward, animated = instant, activation = background\<rparr>)],
          shown = []\<rparr>
   \<and> shown (EventLoop_process
        (Controller_peerFlagsChanged example_session_migrated example_controller 1 Migration
           \<lparr>queued = [], shown = []\<rparr>))
       = [showSection 20 (Memento 1 \<lparr>Section.type = Media, mediaType = MediaKind 4\<rparr>)
            \<lparr>way = Backward, animated = instant, activation = background\<rparr>]"
proof -
  let ?c = "example_controller\<lparr>migrationViewer := None\<rparr>"
  let ?l = "\<lparr>queued = [], shown = []\<rparr>"
  have peer: "Key_peer (key ?c) = Some 1"
    by (simp add: example_controller_def)
  have kind: "isChat (peerData example_session 1) \<or> isChannel (peerData example_session 1)"
    by (simp add: example_session_def)
  have nomig: "migrated ?c = None"
    by (simp add: example_controller_def)
  have built: "fst (Controller_setupMigrationViewer example_session ?c ?l) = example_controller"
    by (simp add: Controller_setupMigrationViewer_def example_controller_def example_session_def)
  then have watching: "migrationViewer example_controller
      = migrationViewer (fst (Controller_setupMigrationViewer example_session ?c ?l))"
    by simp
  have notified: "migrateTo (peerData example_session_migrated 1) \<noteq> None
      \<or> migrateFrom (peerData example_session_migrated 1) \<noteq> migrated example_controller"
    by (simp add: example_session_migrated_def example_session_def)
  from migration_notification_schedules_showSection
    [OF peer kind nomig watching notified, of ?l]
  show ?thesis
    using peer kind nomig built notified
    by (simp add: InvokeQueued_def EventLoop_process_def example_controller_def example_session_migrated_def
        example_session_def)
qed

end
